theory Spec2Isabelle
  imports Main "HOL-Library.Word"
begin

section \<open>Space Dystopia, final checkpoint: data model and operations\<close>

text \<open>
  The embedding follows \<^verbatim>\<open>src/checkpoint/checkpoint5.cpp\<close>. Every C++ \<^verbatim>\<open>int\<close> is a
  32-bit word read as two's complement: \<open>+\<close>, \<open>-\<close> and \<open>*\<close> wrap around, and the
  comparisons are the signed ones (\<open><s\<close>, \<open>\<le>s\<close>). A \<^verbatim>\<open>size_t\<close> index is a \<open>nat\<close>.
  Classes are records; a derived class extends the record of its base. Field names are
  those of the source, so a field shared by several classes is written with its record
  (\<open>Stat.current\<close>, \<open>QuestObjective.current\<close>).
\<close>

type_synonym int32 = "32 word"

text \<open>\<^verbatim>\<open>std::max(a, b)\<close> is \<^verbatim>\<open>(a < b) ? b : a\<close> and \<^verbatim>\<open>std::min(a, b)\<close> is
  \<^verbatim>\<open>(b < a) ? b : a\<close>.\<close>

definition std_max :: "int32 \<Rightarrow> int32 \<Rightarrow> int32" where
  "std_max a b = (if a <s b then b else a)"

definition std_min :: "int32 \<Rightarrow> int32 \<Rightarrow> int32" where
  "std_min a b = (if b <s a then b else a)"

text \<open>The integers a C++ \<^verbatim>\<open>int\<close> represents. A signed operation whose exact result is
  outside this range overflows (the model wraps around there).\<close>

definition int_range :: "int \<Rightarrow> bool" where
  "int_range k \<longleftrightarrow> - 2147483648 \<le> k \<and> k \<le> 2147483647"

subsection \<open>\<^verbatim>\<open>Stat<int>\<close>\<close>

record Stat =
  current :: int32
  maximum :: int32
  name :: string

text \<open>The constructor \<^verbatim>\<open>Stat(statName, initial)\<close>.\<close>

definition Stat_init :: "string \<Rightarrow> int32 \<Rightarrow> Stat" where
  "Stat_init statName initial = \<lparr>current = initial, maximum = initial, name = statName\<rparr>"

definition modify :: "Stat \<Rightarrow> int32 \<Rightarrow> Stat" where
  "modify s amount =
     (let s1 = s\<lparr>Stat.current := std_min (maximum s) (Stat.current s + amount)\<rparr>
      in s1\<lparr>Stat.current := std_max 0 (Stat.current s1)\<rparr>)"

text \<open>The invariant the specification states for a \<open>Stat\<close>.\<close>

definition stat_inv :: "Stat \<Rightarrow> bool" where
  "stat_inv s \<longleftrightarrow> 0 \<le>s Stat.current s \<and> Stat.current s \<le>s maximum s"

subsection \<open>\<^verbatim>\<open>QuestObjective<int>\<close> and \<^verbatim>\<open>Quest\<close>\<close>

record QuestObjective =
  description :: string
  target :: int32
  current :: int32
  completed :: bool

text \<open>The constructor: \<^verbatim>\<open>current(T())\<close> is 0 and \<^verbatim>\<open>completed(false)\<close>, whatever the
  target.\<close>

definition QuestObjective_init :: "string \<Rightarrow> int32 \<Rightarrow> QuestObjective" where
  "QuestObjective_init desc targetValue =
     \<lparr>description = desc, target = targetValue, current = 0, completed = False\<rparr>"

definition updateProgress :: "QuestObjective \<Rightarrow> int32 \<Rightarrow> QuestObjective" where
  "updateProgress obj v =
     (let obj1 = obj\<lparr>QuestObjective.current := v\<rparr>
      in obj1\<lparr>QuestObjective.completed :=
                 (QuestObjective.target obj1 \<le>s QuestObjective.current obj1)\<rparr>)"

text \<open>
  A \<^verbatim>\<open>Quest\<close> holds a vector of shared pointers to its objectives. Each pointer comes
  from the \<^verbatim>\<open>make_shared\<close> in \<^verbatim>\<open>addObjective\<close> and the vector is private, so the
  objectives of one quest are pairwise distinct objects and the vector is modelled as
  the list of their values.
\<close>

record Quest =
  name :: string
  description :: string
  objectives :: "QuestObjective list"
  completed :: bool

definition Quest_init :: "string \<Rightarrow> string \<Rightarrow> Quest" where
  "Quest_init n desc = \<lparr>name = n, description = desc, objectives = [], completed = False\<rparr>"

definition addObjective :: "Quest \<Rightarrow> string \<Rightarrow> int32 \<Rightarrow> Quest" where
  "addObjective q desc tgt = q\<lparr>objectives := objectives q @ [QuestObjective_init desc tgt]\<rparr>"

text \<open>\<^verbatim>\<open>std::all_of\<close> over the objectives' \<^verbatim>\<open>isCompleted()\<close>, which reads the stored
  \<^verbatim>\<open>completed\<close> field of each objective.\<close>

definition checkCompletion :: "Quest \<Rightarrow> Quest" where
  "checkCompletion q = q\<lparr>Quest.completed := list_all QuestObjective.completed (objectives q)\<rparr>"

definition updateObjective :: "Quest \<Rightarrow> nat \<Rightarrow> int32 \<Rightarrow> Quest" where
  "updateObjective q index v =
     (if index < length (objectives q)
      then checkCompletion
             (q\<lparr>objectives := (objectives q)[index := updateProgress (objectives q ! index) v]\<rparr>)
      else q)"

definition isCompleted :: "Quest \<Rightarrow> bool" where
  "isCompleted q = Quest.completed q"

text \<open>The conjunction the specification describes: every objective's current value has
  reached its target.\<close>

definition thresholds_met :: "Quest \<Rightarrow> bool" where
  "thresholds_met q =
     list_all (\<lambda>obj. QuestObjective.target obj \<le>s QuestObjective.current obj) (objectives q)"

text \<open>An objective whose stored flag agrees with its threshold.\<close>

definition flag_agrees :: "QuestObjective \<Rightarrow> bool" where
  "flag_agrees obj =
     (QuestObjective.completed obj = (QuestObjective.target obj \<le>s QuestObjective.current obj))"

text \<open>The main quest as \<^verbatim>\<open>Game::initializeQuests\<close> builds it.\<close>

definition mainQuest :: Quest where
  "mainQuest =
     addObjective
       (addObjective
          (addObjective (Quest_init ''Escape Europa'' ''Find a way to escape and reveal the truth'')
             ''Access classified data'' 1)
          ''Bypass security'' 1)
       ''Escape via airlock'' 1"

subsection \<open>\<^verbatim>\<open>CombatEntity\<close>, \<^verbatim>\<open>CombatPlayer\<close> and \<^verbatim>\<open>Enemy\<close>\<close>

record CombatEntity =
  name :: string
  health :: int32
  attack :: int32
  defense :: int32

definition takeDamage :: "'a CombatEntity_scheme \<Rightarrow> int32 \<Rightarrow> 'a CombatEntity_scheme" where
  "takeDamage e damage =
     e\<lparr>health := std_max 0 (health e - std_max 0 (damage - defense e))\<rparr>"

definition isAlive :: "'a CombatEntity_scheme \<Rightarrow> bool" where
  "isAlive e \<longleftrightarrow> 0 <s health e"

record CombatPlayer = CombatEntity +
  level :: int32
  experience :: int32
  abilities :: "string list"

definition CombatPlayer_init :: "string \<Rightarrow> CombatPlayer" where
  "CombatPlayer_init n =
     \<lparr>name = n, health = 100, attack = 15, defense = 5,
      level = 1, experience = 0, abilities = [''Quick Attack'', ''Defensive Stance'']\<rparr>"

text \<open>
  \<^verbatim>\<open>calculateDamage\<close> draws from \<^verbatim>\<open>std::uniform_int_distribution\<close>; the value drawn is
  an argument of the model. \<open>player_roll\<close> and \<open>enemy_roll\<close> say that a value is one the
  distribution can return (\<open>-2..2\<close> for the player, \<open>-1..1\<close> for an enemy).
\<close>

definition calculateDamage :: "CombatPlayer \<Rightarrow> int32 \<Rightarrow> int32" where
  "calculateDamage p dis = attack p + dis"

definition player_roll :: "int32 \<Rightarrow> bool" where
  "player_roll dis \<longleftrightarrow> - 2 \<le>s dis \<and> dis \<le>s 2"

definition levelUp :: "CombatPlayer \<Rightarrow> CombatPlayer" where
  "levelUp p =
     p\<lparr>level := level p + 1, health := health p + 10, attack := attack p + 5,
       defense := defense p + 3, experience := 0\<rparr>"

definition gainExperience :: "CombatPlayer \<Rightarrow> int32 \<Rightarrow> CombatPlayer" where
  "gainExperience p exp =
     (let p1 = p\<lparr>experience := experience p + exp\<rparr>
      in if level p1 * 100 \<le>s experience p1 then levelUp p1 else p1)"

record Enemy = CombatEntity +
  type :: string
  dropItems :: "string list"

definition Enemy_init :: "string \<Rightarrow> string \<Rightarrow> int32 \<Rightarrow> int32 \<Rightarrow> int32 \<Rightarrow> Enemy" where
  "Enemy_init n t h a d =
     \<lparr>name = n, health = h, attack = a, defense = d, type = t, dropItems = []\<rparr>"

definition Enemy_calculateDamage :: "Enemy \<Rightarrow> int32 \<Rightarrow> int32" where
  "Enemy_calculateDamage e dis = attack e + dis"

definition enemy_roll :: "int32 \<Rightarrow> bool" where
  "enemy_roll dis \<longleftrightarrow> - 1 \<le>s dis \<and> dis \<le>s 1"

text \<open>The first enemy of \<^verbatim>\<open>Game::initializeEnemies\<close>, the only one \<^verbatim>\<open>run\<close> passes to
  \<^verbatim>\<open>handleCombat\<close>.\<close>

definition securityBot :: Enemy where
  "securityBot = Enemy_init ''Security Bot'' ''Robot'' 50 10 3"

subsection \<open>\<^verbatim>\<open>GameObject\<close>, \<^verbatim>\<open>Item\<close>, \<^verbatim>\<open>Character\<close> and \<^verbatim>\<open>Player\<close>\<close>

record GameObject =
  name :: string
  description :: string

text \<open>An item's \<^verbatim>\<open>useEffect\<close> closure is not part of the record: no operation modelled
  here calls \<^verbatim>\<open>Item::use\<close>.\<close>

record Item = GameObject +
  isUsable :: bool
  isPickable :: bool
  useDescription :: string

definition Item_init :: "string \<Rightarrow> string \<Rightarrow> bool \<Rightarrow> bool \<Rightarrow> Item" where
  "Item_init n desc usable pickable =
     \<lparr>name = n, description = desc, isUsable = usable, isPickable = pickable,
      useDescription = ''No specific use instructions.''\<rparr>"

record Character = GameObject +
  health :: Stat
  energy :: Stat
  inventory :: "Item list"

record Player = Character +
  experience :: int32
  questFlags :: "string \<rightharpoonup> bool"
  totalSteps :: int32
  itemsCollected :: int32

definition Player_init :: "string \<Rightarrow> Player" where
  "Player_init n =
     \<lparr>name = n, description = ''A maintenance worker on Europa'',
      health = Stat_init ''Health'' 100, energy = Stat_init ''Energy'' 100, inventory = [],
      experience = 0, questFlags = Map.empty, totalSteps = 0, itemsCollected = 0\<rparr>"

text \<open>\<^verbatim>\<open>Character::takeDamage\<close> throws on a negative argument and catches the exception
  itself: the message goes to \<^verbatim>\<open>std::cerr\<close> and the character is unchanged.\<close>

definition Character_takeDamage :: "'a Character_scheme \<Rightarrow> int32 \<Rightarrow> 'a Character_scheme" where
  "Character_takeDamage c damage =
     (if damage <s 0 then c
      else c\<lparr>Character.health := modify (Character.health c) (- damage)\<rparr>)"

definition addItem :: "'a Character_scheme \<Rightarrow> Item \<Rightarrow> 'a Character_scheme" where
  "addItem c item = c\<lparr>inventory := inventory c @ [item]\<rparr>"

definition incrementSteps :: "Player \<Rightarrow> Player" where
  "incrementSteps p = p\<lparr>totalSteps := totalSteps p + 1\<rparr>"

definition incrementItemsCollected :: "Player \<Rightarrow> Player" where
  "incrementItemsCollected p = p\<lparr>itemsCollected := itemsCollected p + 1\<rparr>"

definition Player_gainExperience :: "Player \<Rightarrow> int32 \<Rightarrow> Player" where
  "Player_gainExperience p exp =
     (if 0 <s exp then p\<lparr>Player.experience := Player.experience p + exp\<rparr> else p)"

text \<open>\<^verbatim>\<open>questFlags[flag] = true\<close> on the \<^verbatim>\<open>std::map\<close>; \<^verbatim>\<open>hasQuestFlag\<close> is
  \<^verbatim>\<open>questFlags.count(flag) > 0\<close>, the presence of the key.\<close>

definition setQuestFlag :: "Player \<Rightarrow> string \<Rightarrow> Player" where
  "setQuestFlag p flag = p\<lparr>questFlags := (questFlags p)(flag \<mapsto> True)\<rparr>"

definition hasQuestFlag :: "Player \<Rightarrow> string \<Rightarrow> bool" where
  "hasQuestFlag p flag \<longleftrightarrow> questFlags p flag \<noteq> None"

text \<open>
  The member functions through which the rest of the program can change a \<^verbatim>\<open>Player\<close>
  (its fields are private or protected), as a datatype of calls, and a session as a list
  of such calls applied in order.
\<close>

datatype player_call =
    TakeDamage int32
  | AddItem Item
  | IncrementSteps
  | IncrementItemsCollected
  | GainExperience int32
  | SetQuestFlag string

fun player_step :: "Player \<Rightarrow> player_call \<Rightarrow> Player" where
  "player_step p (TakeDamage d) = Character_takeDamage p d"
| "player_step p (AddItem it) = addItem p it"
| "player_step p IncrementSteps = incrementSteps p"
| "player_step p IncrementItemsCollected = incrementItemsCollected p"
| "player_step p (GainExperience x) = Player_gainExperience p x"
| "player_step p (SetQuestFlag f) = setQuestFlag p f"

definition player_session :: "Player \<Rightarrow> player_call list \<Rightarrow> Player" where
  "player_session p calls = foldl player_step p calls"

subsection \<open>\<^verbatim>\<open>Game::handleCombat\<close>\<close>

text \<open>
  What one round of the loop reads: the menu choice from \<^verbatim>\<open>std::cin\<close> and the two
  values drawn by the \<^verbatim>\<open>calculateDamage\<close> calls of the round. The lines the function
  itself prints are kept as a list of events, in order (the menu prompt and the lines
  printed inside \<^verbatim>\<open>Player::gainExperience\<close> are left out). The parameter is a pointer
  to a \<^verbatim>\<open>CombatEntity\<close>; the objects of \<^verbatim>\<open>Game::enemies\<close> are all of class
  \<^verbatim>\<open>Enemy\<close>, whose \<^verbatim>\<open>calculateDamage\<close> the enemy's turn calls.
\<close>

record round_input =
  choice :: int32
  playerDis :: int32
  enemyDis :: int32

datatype event =
    CombatInitiated string
  | EMPDeployed
  | YouDeal int32
  | YouDefeated string
  | EnemyDeals string int32
  | YouWereDefeated
  | HealthReport int32 string int32

record combat_state =
  player :: Player
  enemy :: Enemy
  playerCombat :: CombatPlayer
  printed :: "event list"

text \<open>The test of the \<^verbatim>\<open>if\<close> in the player's turn.\<close>

definition emp_branch :: "Player \<Rightarrow> round_input \<Rightarrow> bool" where
  "emp_branch p i \<longleftrightarrow> choice i = 2 \<and> 0 < length (inventory p)"

definition playerDamage :: "Player \<Rightarrow> CombatPlayer \<Rightarrow> round_input \<Rightarrow> int32" where
  "playerDamage p pc i =
     (if emp_branch p i then calculateDamage pc (playerDis i) * 2
      else calculateDamage pc (playerDis i))"

text \<open>The player's turn: the damage is applied to the enemy and reported.\<close>

definition player_turn :: "combat_state \<Rightarrow> round_input \<Rightarrow> combat_state" where
  "player_turn s i =
     (let dmg = playerDamage (player s) (playerCombat s) i
      in s\<lparr>enemy := takeDamage (enemy s) dmg,
           printed := printed s @ (if emp_branch (player s) i then [EMPDeployed] else [])
                       @ [YouDeal dmg]\<rparr>)"

text \<open>The \<^verbatim>\<open>if (!enemy->isAlive())\<close> block. It has no \<^verbatim>\<open>break\<close>.\<close>

definition defeat_check :: "combat_state \<Rightarrow> combat_state" where
  "defeat_check s =
     (if \<not> isAlive (enemy s)
      then s\<lparr>player := Player_gainExperience (setQuestFlag (player s) ''security_defeated'') 50,
             printed := printed s @ [YouDefeated (CombatEntity.name (enemy s))]\<rparr>
      else s)"

text \<open>The enemy's turn and the report of both health values.\<close>

definition enemy_turn :: "combat_state \<Rightarrow> round_input \<Rightarrow> combat_state" where
  "enemy_turn s i =
     (let enemyDamage = Enemy_calculateDamage (enemy s) (enemyDis i);
          pc = takeDamage (playerCombat s) enemyDamage
      in s\<lparr>playerCombat := pc,
           printed := printed s @
             [EnemyDeals (CombatEntity.name (enemy s)) enemyDamage,
              HealthReport (CombatEntity.health pc) (CombatEntity.name (enemy s))
                (CombatEntity.health (enemy s))]\<rparr>)"

text \<open>The loop body: the three parts in the order of the source.\<close>

definition combat_round :: "combat_state \<Rightarrow> round_input \<Rightarrow> combat_state" where
  "combat_round s i = enemy_turn (defeat_check (player_turn s i)) i"

definition loop_test :: "combat_state \<Rightarrow> bool" where
  "loop_test s \<longleftrightarrow> isAlive (enemy s) \<and> isAlive (playerCombat s)"

text \<open>
  \<^verbatim>\<open>while (enemy->isAlive() && playerCombat->isAlive())\<close>. The loop reads one
  \<open>round_input\<close> per round; when the test holds and no input is left the function has
  not returned, which is \<open>None\<close>.
\<close>

fun combat_loop :: "combat_state \<Rightarrow> round_input list \<Rightarrow> combat_state option" where
  "combat_loop s [] = (if loop_test s then None else Some s)"
| "combat_loop s (i # rest) =
     (if loop_test s then combat_loop (combat_round s i) rest else Some s)"

definition handleCombat :: "Player \<Rightarrow> Enemy \<Rightarrow> round_input list \<Rightarrow> combat_state option" where
  "handleCombat p e ins =
     combat_loop
       \<lparr>player = p, enemy = e, playerCombat = CombatPlayer_init (GameObject.name p),
        printed = [CombatInitiated (CombatEntity.name e)]\<rparr> ins"

text \<open>The round of the earlier checkpoint (\<^verbatim>\<open>checkpoint3.cpp\<close>), for comparison: no
  menu, 25 experience points, and a \<^verbatim>\<open>break\<close> in each of the two death branches.\<close>

fun combat_loop3 :: "combat_state \<Rightarrow> round_input list \<Rightarrow> combat_state option" where
  "combat_loop3 s [] = (if loop_test s then None else Some s)"
| "combat_loop3 s (i # rest) =
     (if loop_test s then
        (let dmg = calculateDamage (playerCombat s) (playerDis i);
             s1 = s\<lparr>enemy := takeDamage (enemy s) dmg, printed := printed s @ [YouDeal dmg]\<rparr>
         in if \<not> isAlive (enemy s1)
            then Some (s1\<lparr>player := Player_gainExperience (player s1) 25,
                          printed := printed s1 @ [YouDefeated (CombatEntity.name (enemy s1))]\<rparr>)
            else
              (let enemyDamage = Enemy_calculateDamage (enemy s1) (enemyDis i);
                   pc = takeDamage (playerCombat s1) enemyDamage;
                   s2 = s1\<lparr>playerCombat := pc,
                           printed := printed s1 @
                             [EnemyDeals (CombatEntity.name (enemy s1)) enemyDamage]\<rparr>
               in if \<not> isAlive pc
                  then Some (s2\<lparr>player := Character_takeDamage (player s2) 50,
                                printed := printed s2 @ [YouWereDefeated]\<rparr>)
                  else combat_loop3
                         (s2\<lparr>printed := printed s2 @
                            [HealthReport (CombatEntity.health pc) (CombatEntity.name (enemy s2))
                               (CombatEntity.health (enemy s2))]\<rparr>) rest))
      else Some s)"

subsection \<open>Inputs and invariants used in the statements\<close>

text \<open>A round in which the player attacks, and one in which the player chooses the EMP,
  both with the two random offsets at 0.\<close>

definition plain_attack :: round_input where
  "plain_attack = \<lparr>choice = 1, playerDis = 0, enemyDis = 0\<rparr>"

definition emp_attack :: round_input where
  "emp_attack = \<lparr>choice = 2, playerDis = 0, enemyDis = 0\<rparr>"

text \<open>The EMP of \<^verbatim>\<open>Game::initializeLocations\<close>, and a player who carries it.\<close>

definition empDevice :: Item where
  "empDevice = Item_init ''EMP Device'' ''Can disable security systems'' True True"

definition has_emp :: "Player \<Rightarrow> bool" where
  "has_emp p \<longleftrightarrow> list_ex (\<lambda>it. GameObject.name it = ''EMP Device'') (inventory p)"

text \<open>Both offsets of a round are values the two distributions can return.\<close>

definition valid_input :: "round_input \<Rightarrow> bool" where
  "valid_input i \<longleftrightarrow> player_roll (playerDis i) \<and> enemy_roll (enemyDis i)"

definition healths_nonneg :: "combat_state \<Rightarrow> bool" where
  "healths_nonneg s \<longleftrightarrow>
     0 \<le>s CombatEntity.health (enemy s) \<and> 0 \<le>s CombatEntity.health (playerCombat s)"

text \<open>
  The fight of the combat player (attack 15, defense 5) against the Security Bot
  (attack 10, defense 3) with \<open>n\<close> rounds to go: every round takes at least 10 points
  from the enemy and at most 6 from the player.
\<close>

definition duel_inv :: "nat \<Rightarrow> combat_state \<Rightarrow> bool" where
  "duel_inv n s \<longleftrightarrow>
     attack (playerCombat s) = 15 \<and> defense (playerCombat s) = 5
     \<and> attack (enemy s) = 10 \<and> defense (enemy s) = 3
     \<and> 0 \<le> sint (CombatEntity.health (enemy s))
     \<and> sint (CombatEntity.health (enemy s)) \<le> 10 * int n
     \<and> 6 * int n < sint (CombatEntity.health (playerCombat s))"

text \<open>The state in which \<open>handleCombat\<close> enters its loop, and the state after the
  rounds of an input list have all been played.\<close>

definition combat_start :: "Player \<Rightarrow> Enemy \<Rightarrow> combat_state" where
  "combat_start p e =
     \<lparr>player = p, enemy = e, playerCombat = CombatPlayer_init (GameObject.name p),
      printed = [CombatInitiated (CombatEntity.name e)]\<rparr>"

definition rounds_played :: "combat_state \<Rightarrow> round_input list \<Rightarrow> combat_state" where
  "rounds_played s ins = foldl combat_round s ins"

text \<open>An enemy that kills the combat player in one round, and a quest with an objective
  of target 0.\<close>

definition warden :: Enemy where
  "warden = Enemy_init ''Warden'' ''Robot'' 1000 200 0"

definition sideQuest :: Quest where
  "sideQuest =
     addObjective (addObjective (Quest_init ''Side quest'' ''Two steps'') ''Optional step'' 0)
       ''Find the keycard'' 1"

section \<open>Properties\<close>

subsection \<open>Signed comparison of 32-bit values\<close>

lemma std_max_sint: "sint (std_max a b) = max (sint a) (sint b)"
  by (simp add: std_max_def word_sless_alt max_def)

lemma std_min_sint: "sint (std_min a b) = min (sint a) (sint b)"
  by (simp add: std_min_def word_sless_alt min_def)

lemma sint_range32: "int_range (sint (w :: int32))"
  using sint_ge [of w] sint_lt [of w] by (simp add: int_range_def)

lemma sint_sub32: "int_range (sint a - sint b) \<Longrightarrow> sint (a - b :: int32) = sint a - sint b"
  by (simp add: sint_word_ariths signed_take_bit_int_eq_self int_range_def)

lemma sint_add32: "int_range (sint a + sint b) \<Longrightarrow> sint (a + b :: int32) = sint a + sint b"
  by (simp add: sint_word_ariths signed_take_bit_int_eq_self int_range_def)

lemma sint_mul32: "int_range (sint a * sint b) \<Longrightarrow> sint (a * b :: int32) = sint a * sint b"
  by (simp add: sint_word_ariths signed_take_bit_int_eq_self int_range_def)

subsection \<open>Stat\<close>

text \<open>
  Claim C5. For every \<open>Stat\<close> with \<open>0 \<le> current \<le> maximum\<close> and every amount, positive
  or negative, \<open>modify\<close> leaves \<open>0 \<le> current \<le> maximum\<close>. The sum \<open>current + amount\<close>
  may wrap around; the two clamps bring any 32-bit value back into the range, and
  \<open>maximum\<close> is not changed.
\<close>

theorem modify_keeps_range:
  assumes "stat_inv s"
  shows "stat_inv (modify s amount) \<and> maximum (modify s amount) = maximum s"
  using assms
  by (simp add: stat_inv_def modify_def Let_def word_sle_eq std_max_sint std_min_sint)

theorem modify_keeps_range_witness:
  "stat_inv (Stat_init ''Health'' 100)
   \<and> stat_inv (modify (Stat_init ''Health'' 100) (- 50))
   \<and> Stat.current (modify (Stat_init ''Health'' 100) (- 50)) = 50
   \<and> stat_inv (modify (Stat_init ''Health'' 100) 2147483647)"
proof -
  have h: "stat_inv (Stat_init ''Health'' 100)"
    by (simp add: stat_inv_def Stat_init_def word_sle_eq)
  have c: "Stat.current (modify (Stat_init ''Health'' 100) (- 50)) = 50"
    by (simp add: modify_def Stat_init_def Let_def std_max_def std_min_def word_sless_alt)
  show ?thesis
    using h c modify_keeps_range [OF h, of "- 50"] modify_keeps_range [OF h, of 2147483647]
    by simp
qed

subsection \<open>Damage on a CombatEntity\<close>

lemma takeDamage_nonneg: "0 \<le>s CombatEntity.health (takeDamage e d)"
  by (simp add: takeDamage_def word_sle_eq std_max_sint)

lemma takeDamage_sint:
  assumes "int_range (sint d - sint (defense e))"
    and "int_range (sint (CombatEntity.health e) - max 0 (sint d - sint (defense e)))"
  shows "sint (CombatEntity.health (takeDamage e d)) =
         max 0 (sint (CombatEntity.health e) - max 0 (sint d - sint (defense e)))"
  using assms by (simp add: takeDamage_def std_max_sint sint_sub32)

lemma takeDamage_le:
  assumes "0 \<le>s CombatEntity.health e"
  shows "CombatEntity.health (takeDamage e d) \<le>s CombatEntity.health e"
proof -
  let ?x = "std_max 0 (d - defense e)"
  have x0: "0 \<le> sint ?x" by (simp add: std_max_sint)
  have h0: "0 \<le> sint (CombatEntity.health e)" using assms by (simp add: word_sle_eq)
  have "int_range (sint (CombatEntity.health e) - sint ?x)"
    using x0 h0 sint_range32 [of ?x] sint_range32 [of "CombatEntity.health e"]
    by (simp add: int_range_def)
  then have "sint (CombatEntity.health e - ?x) = sint (CombatEntity.health e) - sint ?x"
    by (rule sint_sub32)
  then show ?thesis using x0 h0
    by (simp add: takeDamage_def word_sle_eq std_max_sint [of 0 "CombatEntity.health e - ?x"])
qed

text \<open>
  Claim C2. \<open>takeDamage d\<close> on an entity with health \<open>h\<close> and defense \<open>def\<close> sets the
  health to \<open>max 0 (h - max 0 (d - def))\<close>. The new health is never below 0, for all
  32-bit values; it is the integer \<open>max 0 (h - max 0 (d - def))\<close> whenever the two
  subtractions stay within the range of \<^verbatim>\<open>int\<close>; a health that was not negative never
  grows (defense absorbs, it does not heal); and an enemy with health 50, attack 10 and
  defense 3 that takes a hit of 8 ends with health 45.
\<close>

theorem takeDamage_health:
  "0 \<le>s CombatEntity.health (takeDamage e d)
   \<and> (int_range (sint d - sint (defense e))
        \<and> int_range (sint (CombatEntity.health e) - max 0 (sint d - sint (defense e)))
      \<longrightarrow> sint (CombatEntity.health (takeDamage e d)) =
            max 0 (sint (CombatEntity.health e) - max 0 (sint d - sint (defense e))))
   \<and> (0 \<le>s CombatEntity.health e
      \<longrightarrow> CombatEntity.health (takeDamage e d) \<le>s CombatEntity.health e)
   \<and> CombatEntity.health (takeDamage (Enemy_init n t 50 10 3) 8) = 45"
proof -
  have "CombatEntity.health (takeDamage (Enemy_init n t 50 10 3) 8) = 45"
    by (simp add: takeDamage_def Enemy_init_def std_max_def word_sless_alt)
  then show ?thesis
    using takeDamage_nonneg [of e d] takeDamage_sint [of d e] takeDamage_le [of e d]
    by blast
qed

theorem takeDamage_health_witness:
  "int_range (sint (8 :: int32) - sint (defense securityBot))
   \<and> int_range (sint (CombatEntity.health securityBot)
                  - max 0 (sint (8 :: int32) - sint (defense securityBot)))
   \<and> 0 \<le>s CombatEntity.health securityBot
   \<and> sint (CombatEntity.health (takeDamage securityBot 8)) = 45
   \<and> CombatEntity.health (takeDamage securityBot 8) \<le>s CombatEntity.health securityBot"
  using takeDamage_health [of securityBot 8]
  by (simp add: securityBot_def Enemy_init_def int_range_def word_sle_eq)

text \<open>
  Claim C7, as stated: for every entity and every \<open>d\<close>, \<open>takeDamage d\<close> and
  \<open>takeDamage (max d 0)\<close> give the same health. It fails for an entity whose defense is
  negative: with health 50 and defense -5, a damage of -1 costs 4 points and a damage of
  0 costs 5.
\<close>

theorem takeDamage_negative_counterexample:
  "CombatEntity.health
     (takeDamage \<lparr>CombatEntity.name = ''Drone'', health = 50, attack = 10, defense = - 5\<rparr> (- 1))
   \<noteq> CombatEntity.health
       (takeDamage \<lparr>CombatEntity.name = ''Drone'', health = 50, attack = 10, defense = - 5\<rparr>
          (std_max (- 1) 0))"
  by (simp add: takeDamage_def std_max_def word_sless_alt)

text \<open>
  Claim C7, amended. For every entity whose defense is not negative and every \<open>d\<close> for
  which \<open>d - defense\<close> is within the range of \<^verbatim>\<open>int\<close>, \<open>takeDamage d\<close> and
  \<open>takeDamage (max d 0)\<close> give the same health; and a negative \<open>d\<close> leaves an entity
  whose health is not negative unchanged.
\<close>

theorem takeDamage_negative:
  assumes "0 \<le>s defense e" and "int_range (sint d - sint (defense e))"
  shows "CombatEntity.health (takeDamage e d) = CombatEntity.health (takeDamage e (std_max d 0))
         \<and> (d <s 0 \<and> 0 \<le>s CombatEntity.health e \<longrightarrow> takeDamage e d = e)"
proof -
  have d0: "0 \<le> sint (defense e)" using assms(1) by (simp add: word_sle_eq)
  show ?thesis
  proof (cases "d <s 0")
    case False
    then show ?thesis by (simp add: std_max_def)
  next
    case True
    then have neg: "sint d < 0" by (simp add: word_sless_alt)
    have m: "std_max d 0 = 0" using True by (simp add: std_max_def)
    have "sint (d - defense e) = sint d - sint (defense e)"
      using assms(2) by (rule sint_sub32)
    then have a: "std_max 0 (d - defense e) = 0"
      using neg d0 by (simp add: std_max_def word_sless_alt)
    have "int_range (sint (0 :: int32) - sint (defense e))"
      using d0 sint_range32 [of "defense e"] by (simp add: int_range_def)
    then have "sint (0 - defense e) = sint (0 :: int32) - sint (defense e)"
      by (rule sint_sub32)
    then have b: "std_max 0 (0 - defense e) = 0"
      using d0 by (simp add: std_max_def word_sless_alt)
    have c: "0 \<le>s CombatEntity.health e
             \<Longrightarrow> std_max 0 (CombatEntity.health e) = CombatEntity.health e"
      by (simp add: std_max_def word_sless_alt word_sle_eq signed_eq_0_iff)
    show ?thesis using True a b c m by (simp add: takeDamage_def)
  qed
qed

theorem takeDamage_negative_witness:
  "0 \<le>s defense securityBot
   \<and> int_range (sint (- 4 :: int32) - sint (defense securityBot))
   \<and> (- 4 :: int32) <s 0 \<and> 0 \<le>s CombatEntity.health securityBot
   \<and> takeDamage securityBot (- 4) = securityBot
   \<and> CombatEntity.health (takeDamage securityBot (- 4))
       = CombatEntity.health (takeDamage securityBot (std_max (- 4) 0))"
proof -
  have h1: "0 \<le>s defense securityBot"
    by (simp add: securityBot_def Enemy_init_def word_sle_eq)
  have h2: "int_range (sint (- 4 :: int32) - sint (defense securityBot))"
    by (simp add: securityBot_def Enemy_init_def int_range_def)
  have h3: "(- 4 :: int32) <s 0 \<and> 0 \<le>s CombatEntity.health securityBot"
    by (simp add: securityBot_def Enemy_init_def word_sle_eq word_sless_alt)
  show ?thesis using h1 h2 h3 takeDamage_negative [OF h1 h2] by blast
qed

subsection \<open>Experience of the combat player\<close>

text \<open>
  Claim C4. \<open>gainExperience exp\<close> adds \<open>exp\<close> to the experience and levels up exactly
  when the sum has reached \<open>level * 100\<close>: the level grows by 1, health by 10, attack by
  5, defense by 3, and the experience is reset to 0; otherwise only the experience
  changes. The test is the signed 32-bit comparison, which is the comparison of the
  integers whenever \<open>level * 100\<close> and the sum are within the range of \<^verbatim>\<open>int\<close>. A new
  player (level 1, no experience) who gains 150 points in one call is at level 2 with
  experience 0: one level-up, nothing carried over.
\<close>

theorem gainExperience_levelUp:
  "(level p * 100 \<le>s CombatPlayer.experience p + exp
      \<longrightarrow> gainExperience p exp =
            p\<lparr>level := level p + 1, CombatEntity.health := CombatEntity.health p + 10,
              attack := attack p + 5, defense := defense p + 3, CombatPlayer.experience := 0\<rparr>)
   \<and> (\<not> level p * 100 \<le>s CombatPlayer.experience p + exp
      \<longrightarrow> gainExperience p exp = p\<lparr>CombatPlayer.experience := CombatPlayer.experience p + exp\<rparr>)
   \<and> (level (gainExperience p exp) = level p + 1
        \<longleftrightarrow> level p * 100 \<le>s CombatPlayer.experience p + exp)
   \<and> (int_range (sint (level p) * 100) \<and> int_range (sint (CombatPlayer.experience p) + sint exp)
      \<longrightarrow> (level p * 100 \<le>s CombatPlayer.experience p + exp
           \<longleftrightarrow> sint (level p) * 100 \<le> sint (CombatPlayer.experience p) + sint exp))
   \<and> gainExperience (CombatPlayer_init n) 150 =
       (CombatPlayer_init n)\<lparr>level := 2, CombatEntity.health := 110, attack := 20, defense := 8,
          CombatPlayer.experience := 0\<rparr>"
proof -
  have a: "level p * 100 \<le>s CombatPlayer.experience p + exp
      \<longrightarrow> gainExperience p exp =
            p\<lparr>level := level p + 1, CombatEntity.health := CombatEntity.health p + 10,
              attack := attack p + 5, defense := defense p + 3, CombatPlayer.experience := 0\<rparr>"
    by (simp add: gainExperience_def levelUp_def Let_def)
  have b: "\<not> level p * 100 \<le>s CombatPlayer.experience p + exp
      \<longrightarrow> gainExperience p exp = p\<lparr>CombatPlayer.experience := CombatPlayer.experience p + exp\<rparr>"
    by (simp add: gainExperience_def Let_def)
  have c: "level (gainExperience p exp) = level p + 1
        \<longleftrightarrow> level p * 100 \<le>s CombatPlayer.experience p + exp"
    by (simp add: gainExperience_def levelUp_def Let_def)
  have d: "int_range (sint (level p) * 100)
           \<and> int_range (sint (CombatPlayer.experience p) + sint exp)
      \<longrightarrow> (level p * 100 \<le>s CombatPlayer.experience p + exp
           \<longleftrightarrow> sint (level p) * 100 \<le> sint (CombatPlayer.experience p) + sint exp)"
  proof
    assume r: "int_range (sint (level p) * 100)
               \<and> int_range (sint (CombatPlayer.experience p) + sint exp)"
    have "int_range (sint (level p) * sint (100 :: int32))" using r by simp
    then have "sint (level p * 100) = sint (level p) * sint (100 :: int32)"
      by (rule sint_mul32)
    moreover have "sint (CombatPlayer.experience p + exp)
                   = sint (CombatPlayer.experience p) + sint exp"
      using r by (simp add: sint_add32)
    ultimately show "level p * 100 \<le>s CombatPlayer.experience p + exp
           \<longleftrightarrow> sint (level p) * 100 \<le> sint (CombatPlayer.experience p) + sint exp"
      by (simp add: word_sle_eq)
  qed
  have e: "gainExperience (CombatPlayer_init n) 150 =
       (CombatPlayer_init n)\<lparr>level := 2, CombatEntity.health := 110, attack := 20, defense := 8,
          CombatPlayer.experience := 0\<rparr>"
    by (simp add: gainExperience_def levelUp_def CombatPlayer_init_def Let_def word_sle_eq)
  show ?thesis using a b c d e by blast
qed

theorem gainExperience_levelUp_witness:
  "int_range (sint (level (CombatPlayer_init ''Ann'')) * 100)
   \<and> int_range (sint (CombatPlayer.experience (CombatPlayer_init ''Ann'')) + sint (150 :: int32))
   \<and> level (CombatPlayer_init ''Ann'') * 100
       \<le>s CombatPlayer.experience (CombatPlayer_init ''Ann'') + 150
   \<and> level (gainExperience (CombatPlayer_init ''Ann'') 150) = 2
   \<and> CombatPlayer.experience (gainExperience (CombatPlayer_init ''Ann'') 150) = 0
   \<and> \<not> level (CombatPlayer_init ''Ann'') * 100
         \<le>s CombatPlayer.experience (CombatPlayer_init ''Ann'') + 99
   \<and> gainExperience (CombatPlayer_init ''Ann'') 99
       = (CombatPlayer_init ''Ann'')\<lparr>CombatPlayer.experience := 99\<rparr>"
  using gainExperience_levelUp [of "CombatPlayer_init ''Ann''" 150 "''Ann''"]
        gainExperience_levelUp [of "CombatPlayer_init ''Ann''" 99 "''Ann''"]
  by (simp add: CombatPlayer_init_def int_range_def word_sle_eq)

subsection \<open>Quests\<close>

lemma mainQuest_objectives: "length (objectives mainQuest) = 3"
  by (simp add: mainQuest_def addObjective_def Quest_init_def)

text \<open>
  Claim C10. For every quest and every index that is at least the number of its
  objectives, \<open>updateObjective\<close> returns the quest as it was: no objective is modified
  and the completed flag keeps its value. The function has no error result.
\<close>

theorem updateObjective_out_of_range:
  assumes "length (objectives q) \<le> index"
  shows "updateObjective q index v = q"
  using assms by (simp add: updateObjective_def)

theorem updateObjective_out_of_range_witness:
  "length (objectives mainQuest) \<le> 3 \<and> updateObjective mainQuest 3 1 = mainQuest
   \<and> updateObjective (Quest_init ''Empty'' ''No objectives'') 0 1
       = Quest_init ''Empty'' ''No objectives''"
  using updateObjective_out_of_range [of mainQuest 3 1]
    updateObjective_out_of_range [of "Quest_init ''Empty'' ''No objectives''" 0 1]
  by (simp add: mainQuest_objectives Quest_init_def)

text \<open>
  Claim C6, as stated: after every \<open>updateObjective\<close> call the quest's completed field
  is the conjunction over its objectives of \<open>current \<ge> target\<close>. It fails for a quest
  with an objective of target 0 that was never updated: the constructor leaves that
  objective's flag false although \<open>0 \<ge> 0\<close>, so after the other objective reaches its
  target every threshold is met and the quest is not completed.
\<close>

theorem updateObjective_completed_counterexample:
  "thresholds_met
     (updateObjective
        (addObjective (addObjective (Quest_init ''Side quest'' ''Two steps'') ''Optional step'' 0)
           ''Find the keycard'' 1) 1 1)
   \<and> \<not> isCompleted
     (updateObjective
        (addObjective (addObjective (Quest_init ''Side quest'' ''Two steps'') ''Optional step'' 0)
           ''Find the keycard'' 1) 1 1)"
  by (simp add: updateObjective_def checkCompletion_def addObjective_def Quest_init_def
      QuestObjective_init_def updateProgress_def thresholds_met_def isCompleted_def Let_def
      word_sle_eq)

lemma updateProgress_agrees: "flag_agrees (updateProgress obj v)"
  by (simp add: flag_agrees_def updateProgress_def Let_def)

lemma list_all_agree:
  "list_all flag_agrees xs \<Longrightarrow>
   list_all QuestObjective.completed xs
     = list_all (\<lambda>obj. QuestObjective.target obj \<le>s QuestObjective.current obj) xs"
  by (induction xs) (auto simp: flag_agrees_def)

lemma list_all_update: "list_all P xs \<Longrightarrow> P x \<Longrightarrow> list_all P (xs[i := x])"
  by (induction xs arbitrary: i) (auto split: nat.splits)

lemma objectives_updateObjective:
  "index < length (objectives q) \<Longrightarrow>
   objectives (updateObjective q index v)
     = (objectives q)[index := updateProgress (objectives q ! index) v]"
  by (simp add: updateObjective_def checkCompletion_def)

lemma completed_updateObjective:
  "index < length (objectives q) \<Longrightarrow>
   Quest.completed (updateObjective q index v)
     = list_all QuestObjective.completed (objectives (updateObjective q index v))"
  by (simp add: updateObjective_def checkCompletion_def)

text \<open>The flags agree with the thresholds in a new quest, and \<open>addObjective\<close> with a
  positive target keeps it so; the main quest of the game is built that way.\<close>

lemma Quest_init_agrees: "list_all flag_agrees (objectives (Quest_init n d))"
  by (simp add: Quest_init_def)

lemma addObjective_agrees:
  "list_all flag_agrees (objectives q) \<Longrightarrow> 0 <s tgt \<Longrightarrow>
   list_all flag_agrees (objectives (addObjective q desc tgt))"
  by (simp add: addObjective_def flag_agrees_def QuestObjective_init_def word_sle_eq
      word_sless_alt)

lemma mainQuest_agrees: "list_all flag_agrees (objectives mainQuest)"
  unfolding mainQuest_def
  by (intro addObjective_agrees Quest_init_agrees) (simp_all add: word_sless_alt)

lemma sideQuest_objectives: "length (objectives sideQuest) = 2"
  by (simp add: sideQuest_def addObjective_def Quest_init_def)

text \<open>
  Claim C6, amended. After every \<open>updateObjective\<close> call with an index in range, on
  any quest, the quest's completed field is the conjunction of the stored completed
  flags of its objectives; the call replaces the objective at the index by its update,
  whose flag is \<open>value \<ge> target\<close>, and leaves the other objectives and their flags as
  they were. If, before the call, the flag of every objective agrees with its threshold
  (\<open>completed = (current \<ge> target)\<close>, as in a quest whose targets are all positive), the
  same holds after the call, and the completed field is then the conjunction over all
  objectives of \<open>current \<ge> target\<close>: \<open>isCompleted\<close> is true after every such update
  that leaves all thresholds met.
\<close>

theorem updateObjective_completed:
  assumes "index < length (objectives q)"
  shows "isCompleted (updateObjective q index v)
           = list_all QuestObjective.completed (objectives (updateObjective q index v))
         \<and> objectives (updateObjective q index v)
           = (objectives q)[index := updateProgress (objectives q ! index) v]
         \<and> QuestObjective.completed (objectives (updateObjective q index v) ! index)
           = (QuestObjective.target (objectives q ! index) \<le>s v)
         \<and> (list_all flag_agrees (objectives q) \<longrightarrow>
              isCompleted (updateObjective q index v) = thresholds_met (updateObjective q index v)
              \<and> list_all flag_agrees (objectives (updateObjective q index v)))"
proof -
  have obs: "objectives (updateObjective q index v)
           = (objectives q)[index := updateProgress (objectives q ! index) v]"
    using assms by (rule objectives_updateObjective)
  have fin: "isCompleted (updateObjective q index v)
           = list_all QuestObjective.completed (objectives (updateObjective q index v))"
    using assms by (simp add: isCompleted_def completed_updateObjective)
  have flag: "QuestObjective.completed (objectives (updateObjective q index v) ! index)
           = (QuestObjective.target (objectives q ! index) \<le>s v)"
    using assms by (simp add: obs updateProgress_def Let_def)
  have agree: "isCompleted (updateObjective q index v) = thresholds_met (updateObjective q index v)
              \<and> list_all flag_agrees (objectives (updateObjective q index v))"
    if "list_all flag_agrees (objectives q)"
  proof -
    have ag: "list_all flag_agrees (objectives (updateObjective q index v))"
      using that by (simp add: obs list_all_update updateProgress_agrees)
    then show ?thesis using fin list_all_agree [OF ag] by (simp add: thresholds_met_def)
  qed
  show ?thesis using obs fin flag agree by blast
qed

theorem updateObjective_completed_witness:
  "(1 :: nat) < length (objectives sideQuest)
   \<and> \<not> list_all flag_agrees (objectives sideQuest)
   \<and> thresholds_met (updateObjective sideQuest 1 1)
   \<and> \<not> list_all QuestObjective.completed (objectives (updateObjective sideQuest 1 1))
   \<and> \<not> isCompleted (updateObjective sideQuest 1 1)
   \<and> (0 :: nat) < length (objectives mainQuest) \<and> list_all flag_agrees (objectives mainQuest)
   \<and> \<not> isCompleted (updateObjective mainQuest 0 1)
   \<and> \<not> thresholds_met (updateObjective mainQuest 0 1)
   \<and> isCompleted (updateObjective (updateObjective (updateObjective mainQuest 0 1) 1 1) 2 1)"
proof -
  have s1: "(1 :: nat) < length (objectives sideQuest)" by (simp add: sideQuest_objectives)
  have s2: "\<not> list_all flag_agrees (objectives sideQuest)"
    by (simp add: sideQuest_def addObjective_def Quest_init_def QuestObjective_init_def
        flag_agrees_def word_sle_eq)
  have s3: "thresholds_met (updateObjective sideQuest 1 1)"
    by (simp add: updateObjective_def checkCompletion_def sideQuest_def addObjective_def
        Quest_init_def QuestObjective_init_def updateProgress_def thresholds_met_def Let_def
        word_sle_eq)
  have s4: "objectives (updateObjective sideQuest 1 1)
            = (objectives sideQuest)[1 := updateProgress (objectives sideQuest ! 1) 1]
            \<and> isCompleted (updateObjective sideQuest 1 1)
            = list_all QuestObjective.completed (objectives (updateObjective sideQuest 1 1))"
    using updateObjective_completed [OF s1, of 1] by blast
  have s5: "\<not> list_all QuestObjective.completed
               ((objectives sideQuest)[1 := updateProgress (objectives sideQuest ! 1) 1])"
    by (simp add: sideQuest_def addObjective_def Quest_init_def QuestObjective_init_def
        updateProgress_def Let_def)
  have h1: "(0 :: nat) < length (objectives mainQuest)" by (simp add: mainQuest_objectives)
  have h2: "\<not> thresholds_met (updateObjective mainQuest 0 1)"
    by (simp add: updateObjective_def checkCompletion_def mainQuest_def addObjective_def
        Quest_init_def QuestObjective_init_def updateProgress_def thresholds_met_def Let_def
        word_sle_eq)
  have h3: "isCompleted (updateObjective (updateObjective (updateObjective mainQuest 0 1) 1 1) 2 1)"
    by (simp add: updateObjective_def checkCompletion_def mainQuest_def addObjective_def
        Quest_init_def QuestObjective_init_def updateProgress_def isCompleted_def Let_def
        word_sle_eq)
  have h4: "isCompleted (updateObjective mainQuest 0 1) = thresholds_met (updateObjective mainQuest 0 1)"
    using mainQuest_agrees updateObjective_completed [OF h1, of 1] by blast
  show ?thesis
    using s1 s2 s3 s4 s5 h1 h2 h3 h4 mainQuest_agrees by simp
qed

subsection \<open>Quest flags of the player\<close>

lemma hasQuestFlag_step: "hasQuestFlag p f \<Longrightarrow> hasQuestFlag (player_step p c) f"
  by (cases c)
    (auto simp add: hasQuestFlag_def Character_takeDamage_def addItem_def incrementSteps_def
      incrementItemsCollected_def Player_gainExperience_def setQuestFlag_def)

lemma hasQuestFlag_foldl: "hasQuestFlag p f \<Longrightarrow> hasQuestFlag (foldl player_step p calls) f"
  by (induction calls arbitrary: p) (simp_all add: hasQuestFlag_step)

text \<open>The two calls \<open>handleCombat\<close> makes on the player when the enemy is defeated keep
  every flag as well.\<close>

lemma combat_round_keeps_flag:
  "hasQuestFlag (player s) f \<Longrightarrow> hasQuestFlag (player (combat_round s i)) f"
  by (auto simp add: combat_round_def enemy_turn_def defeat_check_def player_turn_def Let_def
      hasQuestFlag_def Player_gainExperience_def setQuestFlag_def)

lemma combat_loop_keeps_flag:
  "combat_loop s ins = Some s' \<Longrightarrow> hasQuestFlag (player s) f \<Longrightarrow> hasQuestFlag (player s') f"
  by (induction ins arbitrary: s) (auto simp: combat_round_keeps_flag split: if_splits)

lemma handleCombat_keeps_flag:
  "handleCombat p e ins = Some s \<Longrightarrow> hasQuestFlag p f \<Longrightarrow> hasQuestFlag (player s) f"
  unfolding handleCombat_def using combat_loop_keeps_flag by fastforce

text \<open>
  Claim C8. Once \<open>setQuestFlag f\<close> has been called, \<open>hasQuestFlag f\<close> is true after
  every later sequence of calls on the player: no member function of \<^verbatim>\<open>Player\<close> or of
  its base classes removes a key from \<^verbatim>\<open>questFlags\<close>.
\<close>

theorem questFlags_never_cleared:
  "hasQuestFlag (player_session (setQuestFlag p f) calls) f"
  unfolding player_session_def
  by (rule hasQuestFlag_foldl) (simp add: hasQuestFlag_def setQuestFlag_def)

theorem questFlags_never_cleared_witness:
  "hasQuestFlag
     (player_session (setQuestFlag (Player_init ''Ann'') ''read_classified_info'')
        [GainExperience 20, IncrementSteps, SetQuestFlag ''terminal_hacked'', TakeDamage 50,
         SetQuestFlag ''security_defeated'', GainExperience 50])
     ''read_classified_info''
   \<and> \<not> hasQuestFlag (Player_init ''Ann'') ''read_classified_info''"
  using questFlags_never_cleared [of "Player_init ''Ann''" "''read_classified_info''"
      "[GainExperience 20, IncrementSteps, SetQuestFlag ''terminal_hacked'', TakeDamage 50,
         SetQuestFlag ''security_defeated'', GainExperience 50]"]
  by (simp add: hasQuestFlag_def Player_init_def)

subsection \<open>One round of combat\<close>

lemma enemy_combat_round:
  "enemy (combat_round s i) = takeDamage (enemy s) (playerDamage (player s) (playerCombat s) i)"
  by (simp add: combat_round_def enemy_turn_def defeat_check_def player_turn_def Let_def)

lemma playerCombat_combat_round:
  "playerCombat (combat_round s i) =
     takeDamage (playerCombat s) (Enemy_calculateDamage (enemy (combat_round s i)) (enemyDis i))"
  by (simp add: combat_round_def enemy_turn_def defeat_check_def player_turn_def Let_def)

lemma player_combat_round:
  "player (combat_round s i) =
     (if \<not> isAlive (enemy (combat_round s i))
      then Player_gainExperience (setQuestFlag (player s) ''security_defeated'') 50
      else player s)"
  by (simp add: combat_round_def enemy_turn_def defeat_check_def player_turn_def Let_def)

lemma health_combat_round:
  "Character.health (player (combat_round s i)) = Character.health (player s)"
  by (simp add: player_combat_round Player_gainExperience_def setQuestFlag_def)

lemma combat_loop_exit: "combat_loop s ins = Some s' \<Longrightarrow> \<not> loop_test s'"
  by (induction ins arbitrary: s) (auto split: if_splits)

lemma combat_loop_health:
  "combat_loop s ins = Some s' \<Longrightarrow> Character.health (player s') = Character.health (player s)"
  by (induction ins arbitrary: s) (auto simp: health_combat_round split: if_splits)

lemma healths_nonneg_round: "healths_nonneg (combat_round s i)"
  by (simp add: healths_nonneg_def enemy_combat_round playerCombat_combat_round takeDamage_nonneg)

lemma combat_loop_nonneg:
  "combat_loop s ins = Some s' \<Longrightarrow> healths_nonneg s \<Longrightarrow> healths_nonneg s'"
  by (induction ins arbitrary: s) (auto simp: healths_nonneg_round split: if_splits)

lemma not_alive_zero:
  "0 \<le>s CombatEntity.health e \<Longrightarrow> \<not> isAlive e \<Longrightarrow> CombatEntity.health e = 0"
  by (simp add: isAlive_def word_sle_eq word_sless_alt signed_eq_0_iff)

lemma combat_loop_dead: "\<not> loop_test s \<Longrightarrow> combat_loop s ins = Some s"
  by (cases ins) simp_all

lemmas combat_defs = handleCombat_def loop_test_def isAlive_def combat_round_def player_turn_def
      defeat_check_def enemy_turn_def playerDamage_def emp_branch_def calculateDamage_def
      Enemy_calculateDamage_def takeDamage_def std_max_def Player_init_def Enemy_init_def
      CombatPlayer_init_def securityBot_def plain_attack_def Let_def word_sless_alt

lemmas combat_defs2 = combat_defs addItem_def empDevice_def Item_init_def emp_attack_def

lemma securityBot_emp_rounds:
  "handleCombat (addItem (Player_init ''Ann'') empDevice) securityBot [emp_attack, emp_attack]
   = Some \<lparr>player = Player_gainExperience
                      (setQuestFlag (addItem (Player_init ''Ann'') empDevice)
                         ''security_defeated'') 50,
        enemy = Enemy_init ''Security Bot'' ''Robot'' 0 10 3,
        playerCombat = (CombatPlayer_init ''Ann'')\<lparr>CombatEntity.health := 90\<rparr>,
        printed =
          [CombatInitiated ''Security Bot'',
           EMPDeployed, YouDeal 30, EnemyDeals ''Security Bot'' 10,
           HealthReport 95 ''Security Bot'' 23,
           EMPDeployed, YouDeal 30, YouDefeated ''Security Bot'',
           EnemyDeals ''Security Bot'' 10, HealthReport 90 ''Security Bot'' 0]\<rparr>"
  by (simp add: combat_defs2)

subsection \<open>The combat player against the Security Bot\<close>

lemma sint_player_roll:
  assumes "player_roll r"
  shows "sint ((15 :: int32) + r) = 15 + sint r" and "- 2 \<le> sint r" and "sint r \<le> 2"
proof -
  show a: "- 2 \<le> sint r" and b: "sint r \<le> 2"
    using assms by (simp_all add: player_roll_def word_sle_eq)
  have "int_range (sint (15 :: int32) + sint r)" using a b by (simp add: int_range_def)
  then have "sint ((15 :: int32) + r) = sint (15 :: int32) + sint r" by (rule sint_add32)
  then show "sint ((15 :: int32) + r) = 15 + sint r" by simp
qed

lemma sint_player_roll_twice:
  assumes "player_roll r"
  shows "sint (((15 :: int32) + r) * 2) = 2 * (15 + sint r)"
proof -
  have "int_range (sint ((15 :: int32) + r) * sint (2 :: int32))"
    using sint_player_roll [OF assms] by (simp add: int_range_def)
  then have "sint (((15 :: int32) + r) * 2) = sint ((15 :: int32) + r) * sint (2 :: int32)"
    by (rule sint_mul32)
  then show ?thesis using sint_player_roll(1) [OF assms] by simp
qed

lemma sint_enemy_roll:
  assumes "enemy_roll r"
  shows "sint ((10 :: int32) + r) = 10 + sint r" and "- 1 \<le> sint r" and "sint r \<le> 1"
proof -
  show a: "- 1 \<le> sint r" and b: "sint r \<le> 1"
    using assms by (simp_all add: enemy_roll_def word_sle_eq)
  have "int_range (sint (10 :: int32) + sint r)" using a b by (simp add: int_range_def)
  then have "sint ((10 :: int32) + r) = sint (10 :: int32) + sint r" by (rule sint_add32)
  then show "sint ((10 :: int32) + r) = 10 + sint r" by simp
qed

lemma takeDamage_sint_bounded:
  assumes "0 \<le> sint (CombatEntity.health e)" and "0 \<le> sint d - sint (defense e)"
    and "int_range (sint d - sint (defense e))"
  shows "sint (CombatEntity.health (takeDamage e d)) =
         max 0 (sint (CombatEntity.health e) - (sint d - sint (defense e)))"
proof -
  have "int_range (sint (CombatEntity.health e) - max 0 (sint d - sint (defense e)))"
    using assms sint_range32 [of "CombatEntity.health e"] by (simp add: int_range_def)
  then show ?thesis using takeDamage_sint [OF assms(3)] assms(2) by simp
qed

lemma takeDamage_fields [simp]:
  "attack (takeDamage e d) = attack e" "defense (takeDamage e d) = defense e"
  by (simp_all add: takeDamage_def)

lemma sint_playerDamage:
  assumes "attack pc = 15" and "player_roll (playerDis i)"
  shows "13 \<le> sint (playerDamage p pc i)" and "sint (playerDamage p pc i) \<le> 34"
  using sint_player_roll [OF assms(2)] sint_player_roll_twice [OF assms(2)] assms(1)
  by (simp_all add: playerDamage_def calculateDamage_def)

lemma duel_inv_round:
  assumes "duel_inv (Suc n) s" and "valid_input i"
  shows "duel_inv n (combat_round s i)"
proof -
  let ?d = "playerDamage (player s) (playerCombat s) i"
  let ?e' = "takeDamage (enemy s) ?d"
  let ?x = "Enemy_calculateDamage ?e' (enemyDis i)"
  have inv: "attack (playerCombat s) = 15" "defense (playerCombat s) = 5"
    "attack (enemy s) = 10" "defense (enemy s) = 3"
    "0 \<le> sint (CombatEntity.health (enemy s))"
    "sint (CombatEntity.health (enemy s)) \<le> 10 * int (Suc n)"
    "6 * int (Suc n) < sint (CombatEntity.health (playerCombat s))"
    using assms(1) by (simp_all add: duel_inv_def)
  have rolls: "player_roll (playerDis i)" "enemy_roll (enemyDis i)"
    using assms(2) by (simp_all add: valid_input_def)
  have d: "13 \<le> sint ?d" "sint ?d \<le> 34"
    using sint_playerDamage [OF inv(1) rolls(1)] by simp_all
  have "sint (CombatEntity.health ?e') =
          max 0 (sint (CombatEntity.health (enemy s)) - (sint ?d - sint (defense (enemy s))))"
    using inv d by (intro takeDamage_sint_bounded) (simp_all add: int_range_def)
  then have e': "0 \<le> sint (CombatEntity.health ?e')"
    "sint (CombatEntity.health ?e') \<le> 10 * int n"
    using inv d by simp_all
  have x: "sint ?x = 10 + sint (enemyDis i)"
    using sint_enemy_roll(1) [OF rolls(2)] inv(3) by (simp add: Enemy_calculateDamage_def)
  have xr: "9 \<le> sint ?x" "sint ?x \<le> 11"
    using x sint_enemy_roll(2,3) [OF rolls(2)] by simp_all
  have "sint (CombatEntity.health (takeDamage (playerCombat s) ?x)) =
          max 0 (sint (CombatEntity.health (playerCombat s))
                 - (sint ?x - sint (defense (playerCombat s))))"
    using inv xr by (intro takeDamage_sint_bounded) (simp_all add: int_range_def)
  then have p': "6 * int n < sint (CombatEntity.health (takeDamage (playerCombat s) ?x))"
    using inv xr by simp
  show ?thesis
    using inv e' p'
    by (simp add: duel_inv_def enemy_combat_round playerCombat_combat_round)
qed

lemma duel_ends:
  "duel_inv n s \<Longrightarrow> n \<le> length ins \<Longrightarrow> list_all valid_input ins \<Longrightarrow>
   \<exists>s'. combat_loop s ins = Some s' \<and> CombatEntity.health (enemy s') = 0
        \<and> isAlive (playerCombat s')"
proof (induction n arbitrary: s ins)
  case 0
  then have "sint (CombatEntity.health (enemy s)) = 0" and a: "isAlive (playerCombat s)"
    by (simp_all add: duel_inv_def isAlive_def word_sless_alt)
  then have h: "CombatEntity.health (enemy s) = 0" by (simp add: signed_eq_0_iff)
  then have "\<not> loop_test s" by (simp add: loop_test_def isAlive_def)
  then have "combat_loop s ins = Some s" by (rule combat_loop_dead)
  then show ?case using h a by simp
next
  case (Suc n)
  have a: "isAlive (playerCombat s)"
    using Suc.prems(1) by (simp add: duel_inv_def isAlive_def word_sless_alt)
  show ?case
  proof (cases "loop_test s")
    case False
    then have "\<not> isAlive (enemy s)" using a by (simp add: loop_test_def)
    moreover have "0 \<le>s CombatEntity.health (enemy s)"
      using Suc.prems(1) by (simp add: duel_inv_def word_sle_eq)
    ultimately have "CombatEntity.health (enemy s) = 0" using not_alive_zero by blast
    moreover have "combat_loop s ins = Some s" using False by (rule combat_loop_dead)
    ultimately show ?thesis using a by simp
  next
    case True
    from Suc.prems(2) obtain i rest where ins: "ins = i # rest" by (cases ins) auto
    have "duel_inv n (combat_round s i)"
      using Suc.prems(1,3) ins by (simp add: duel_inv_round)
    moreover have "n \<le> length rest" "list_all valid_input rest"
      using Suc.prems(2,3) ins by simp_all
    ultimately obtain s' where "combat_loop (combat_round s i) rest = Some s'"
      "CombatEntity.health (enemy s') = 0" "isAlive (playerCombat s')"
      using Suc.IH by blast
    then show ?thesis using True ins by simp
  qed
qed

lemma securityBot_always_defeated:
  assumes "5 \<le> length ins" and "list_all valid_input ins"
  shows "\<exists>s. handleCombat p securityBot ins = Some s \<and> CombatEntity.health (enemy s) = 0
             \<and> isAlive (playerCombat s)"
  unfolding handleCombat_def
  by (rule duel_ends [OF _ assms])
     (simp add: duel_inv_def securityBot_def Enemy_init_def CombatPlayer_init_def)


subsection \<open>How the encounter ends\<close>

lemma handleCombat_start: "handleCombat p e ins = combat_loop (combat_start p e) ins"
  by (simp add: handleCombat_def combat_start_def)

lemma combat_loop_rounds:
  "(\<forall>j < length ins. loop_test (rounds_played s (take j ins))) \<Longrightarrow>
   combat_loop s (ins @ later) = combat_loop (rounds_played s ins) later"
proof (induction ins arbitrary: s)
  case Nil
  then show ?case by (simp add: rounds_played_def)
next
  case (Cons i ins)
  have first: "loop_test s" using Cons.prems by (auto simp: rounds_played_def)
  have "\<forall>j < length ins. loop_test (rounds_played (combat_round s i) (take j ins))"
  proof (intro allI impI)
    fix j assume "j < length ins"
    then have "Suc j < length (i # ins)" by simp
    then have "loop_test (rounds_played s (take (Suc j) (i # ins)))" using Cons.prems by blast
    then show "loop_test (rounds_played (combat_round s i) (take j ins))"
      by (simp add: rounds_played_def)
  qed
  then have "combat_loop (combat_round s i) (ins @ later)
               = combat_loop (rounds_played (combat_round s i) ins) later"
    by (rule Cons.IH)
  then show ?case using first by (simp add: rounds_played_def)
qed

lemma combat_loop_running: "loop_test s \<Longrightarrow> combat_loop s [] = None"
  by simp

lemmas combat_defs3 = combat_defs2 warden_def combat_start_def rounds_played_def

lemma warden_first_round:
  "rounds_played (combat_start (Player_init ''Ann'') warden) [plain_attack]
   = \<lparr>player = Player_init ''Ann'',
        enemy = Enemy_init ''Warden'' ''Robot'' 985 200 0,
        playerCombat = (CombatPlayer_init ''Ann'')\<lparr>CombatEntity.health := 0\<rparr>,
        printed = [CombatInitiated ''Warden'', YouDeal 15, EnemyDeals ''Warden'' 200,
                   HealthReport 0 ''Warden'' 985]\<rparr>"
  by (simp add: combat_defs3)

lemma warden_start_alive:
  "\<forall>j < length [plain_attack].
     loop_test (rounds_played (combat_start (Player_init ''Ann'') warden) (take j [plain_attack]))"
  by (simp add: combat_defs3)


text \<open>
  Claim C1, as stated: the loop ends only with the enemy's death, so the enemy's health
  is 0 whenever \<open>handleCombat\<close> returns. The loop test is
  \<^verbatim>\<open>enemy->isAlive() && playerCombat->isAlive()\<close>: against an enemy with health
  1000, attack 200 and defense 0 the combat player is dead after one round, and
  \<open>handleCombat\<close> returns with the enemy alive, at health 985.
\<close>

theorem handleCombat_exit_counterexample:
  "handleCombat (Player_init ''Ann'') (Enemy_init ''Warden'' ''Robot'' 1000 200 0)
     [\<lparr>choice = 1, playerDis = 0, enemyDis = 0\<rparr>]
   = Some \<lparr>player = Player_init ''Ann'',
        enemy = Enemy_init ''Warden'' ''Robot'' 985 200 0,
        playerCombat = (CombatPlayer_init ''Ann'')\<lparr>CombatEntity.health := 0\<rparr>,
        printed = [CombatInitiated ''Warden'', YouDeal 15, EnemyDeals ''Warden'' 200,
                   HealthReport 0 ''Warden'' 985]\<rparr>
   \<and> CombatEntity.health (Enemy_init ''Warden'' ''Robot'' 985 200 0) \<noteq> 0
   \<and> isAlive (Enemy_init ''Warden'' ''Robot'' 985 200 0)"
  by (simp add: handleCombat_def loop_test_def isAlive_def combat_round_def player_turn_def
      defeat_check_def enemy_turn_def playerDamage_def emp_branch_def calculateDamage_def
      Enemy_calculateDamage_def takeDamage_def std_max_def Player_init_def Enemy_init_def
      CombatPlayer_init_def Let_def word_sless_alt)

text \<open>
  Claim C1, amended. The loop of the final checkpoint runs while both the enemy and the
  combat player are alive and ends when either is dead. Whenever \<open>handleCombat\<close>
  returns for an enemy that was alive, the enemy's health is 0 or the combat player's
  health is 0, and the health of the overworld player is what it was before the
  encounter: there is no loss branch. For an enemy that is not alive it returns at once,
  in its starting state. If both were alive before each round of \<open>ins\<close>, then
  \<open>handleCombat\<close> returns the state after these rounds as soon as the combat player
  or the enemy is dead in it, whatever input follows; and while both are still alive
  it has not returned.
\<close>

theorem handleCombat_exit:
  "(handleCombat p e ins = Some s \<longrightarrow>
      (isAlive e \<longrightarrow>
         CombatEntity.health (enemy s) = 0 \<or> CombatEntity.health (playerCombat s) = 0)
      \<and> Character.health (player s) = Character.health p)
   \<and> (\<not> isAlive e \<longrightarrow> handleCombat p e ins = Some (combat_start p e))
   \<and> ((\<forall>j < length ins. loop_test (rounds_played (combat_start p e) (take j ins))) \<longrightarrow>
        (\<not> isAlive (playerCombat (rounds_played (combat_start p e) ins))
           \<or> \<not> isAlive (enemy (rounds_played (combat_start p e) ins))
         \<longrightarrow> handleCombat p e (ins @ later) = Some (rounds_played (combat_start p e) ins))
        \<and> (isAlive (playerCombat (rounds_played (combat_start p e) ins))
           \<and> isAlive (enemy (rounds_played (combat_start p e) ins))
         \<longrightarrow> handleCombat p e ins = None))"
proof -
  let ?s0 = "combat_start p e"
  let ?x = "rounds_played ?s0 ins"
  have post: "(isAlive e \<longrightarrow>
         CombatEntity.health (enemy s) = 0 \<or> CombatEntity.health (playerCombat s) = 0)
      \<and> Character.health (player s) = Character.health p"
    if ret: "handleCombat p e ins = Some s"
  proof -
    have run: "combat_loop ?s0 ins = Some s" using ret by (simp add: handleCombat_start)
    have stop: "\<not> loop_test s" using run by (rule combat_loop_exit)
    have a: "CombatEntity.health (enemy s) = 0 \<or> CombatEntity.health (playerCombat s) = 0"
      if "isAlive e"
    proof -
      have "healths_nonneg ?s0" using that
        by (simp add: healths_nonneg_def isAlive_def combat_start_def CombatPlayer_init_def
            word_sle_eq word_sless_alt)
      then have "healths_nonneg s" using run combat_loop_nonneg by blast
      then show ?thesis
        using stop not_alive_zero [of "enemy s"] not_alive_zero [of "playerCombat s"]
        by (auto simp: loop_test_def healths_nonneg_def)
    qed
    have c: "Character.health (player s) = Character.health p"
      using combat_loop_health [OF run] by (simp add: combat_start_def)
    show ?thesis using a c by blast
  qed
  have dead: "handleCombat p e ins = Some ?s0" if "\<not> isAlive e"
  proof -
    have "\<not> loop_test ?s0" using that by (simp add: loop_test_def combat_start_def)
    then show ?thesis unfolding handleCombat_start by (rule combat_loop_dead)
  qed
  have ends: "handleCombat p e (ins @ later) = Some ?x"
    if "\<forall>j < length ins. loop_test (rounds_played ?s0 (take j ins))"
      and "\<not> isAlive (playerCombat ?x) \<or> \<not> isAlive (enemy ?x)"
  proof -
    have "\<not> loop_test ?x" using that(2) by (auto simp: loop_test_def)
    then have "combat_loop ?x later = Some ?x" by (rule combat_loop_dead)
    then show ?thesis using combat_loop_rounds [OF that(1), of later]
      by (simp add: handleCombat_start)
  qed
  have goes_on: "handleCombat p e ins = None"
    if "\<forall>j < length ins. loop_test (rounds_played ?s0 (take j ins))"
      and "isAlive (playerCombat ?x) \<and> isAlive (enemy ?x)"
  proof -
    have "loop_test ?x" using that(2) by (simp add: loop_test_def)
    then have "combat_loop ?x [] = None" by (rule combat_loop_running)
    then show ?thesis using combat_loop_rounds [OF that(1), of "[]"]
      by (simp add: handleCombat_start)
  qed
  show ?thesis using post dead ends goes_on by blast
qed

theorem handleCombat_exit_witness:
  "loop_test (rounds_played (combat_start (Player_init ''Ann'') warden) (take 0 [plain_attack]))
   \<and> \<not> isAlive (playerCombat (rounds_played (combat_start (Player_init ''Ann'') warden) [plain_attack]))
   \<and> isAlive (enemy (rounds_played (combat_start (Player_init ''Ann'') warden) [plain_attack]))
   \<and> handleCombat (Player_init ''Ann'') warden [plain_attack, plain_attack]
       = Some (rounds_played (combat_start (Player_init ''Ann'') warden) [plain_attack])
   \<and> handleCombat (Player_init ''Ann'') warden [] = None
   \<and> \<not> isAlive (Enemy_init ''Security Bot'' ''Robot'' 0 10 3)
   \<and> handleCombat (Player_init ''Ann'') (Enemy_init ''Security Bot'' ''Robot'' 0 10 3) [plain_attack]
       = Some (combat_start (Player_init ''Ann'') (Enemy_init ''Security Bot'' ''Robot'' 0 10 3))
   \<and> isAlive securityBot
   \<and> handleCombat (addItem (Player_init ''Ann'') empDevice) securityBot [emp_attack, emp_attack]
       \<noteq> None
   \<and> CombatEntity.health
       (enemy (the (handleCombat (addItem (Player_init ''Ann'') empDevice) securityBot
                      [emp_attack, emp_attack]))) = 0
   \<and> Character.health
       (player (the (handleCombat (addItem (Player_init ''Ann'') empDevice) securityBot
                       [emp_attack, emp_attack])))
     = Character.health (addItem (Player_init ''Ann'') empDevice)"
proof -
  let ?ann = "Player_init ''Ann''"
  let ?x = "rounds_played (combat_start ?ann warden) [plain_attack]"
  have w1: "\<not> isAlive (playerCombat ?x)" and w2: "isAlive (enemy ?x)"
    by (simp_all add: warden_first_round isAlive_def Enemy_init_def CombatPlayer_init_def
        word_sless_alt)
  have w3: "handleCombat ?ann warden ([plain_attack] @ [plain_attack]) = Some ?x"
    using handleCombat_exit [of ?ann warden "[plain_attack]" "combat_start ?ann warden"
        "[plain_attack]"] warden_start_alive w1
    by blast
  have w0: "isAlive (playerCombat (rounds_played (combat_start ?ann warden) []))
            \<and> isAlive (enemy (rounds_played (combat_start ?ann warden) []))"
    by (simp add: combat_defs3)
  have w4: "handleCombat ?ann warden [] = None"
    using handleCombat_exit [of ?ann warden "[]" "combat_start ?ann warden" "[]"] w0 by simp
  let ?dead = "Enemy_init ''Security Bot'' ''Robot'' 0 10 3"
  have d1: "\<not> isAlive ?dead" by (simp add: isAlive_def Enemy_init_def word_sless_alt)
  have d2: "handleCombat ?ann ?dead [plain_attack] = Some (combat_start ?ann ?dead)"
    using handleCombat_exit [of ?ann ?dead "[plain_attack]" "combat_start ?ann ?dead" "[]"] d1 by blast
  let ?p = "addItem ?ann empDevice"
  let ?run = "handleCombat ?p securityBot [emp_attack, emp_attack]"
  have r: "?run = Some (the ?run)" by (simp add: securityBot_emp_rounds)
  have alive: "isAlive securityBot"
    by (simp add: isAlive_def securityBot_def Enemy_init_def word_sless_alt)
  have pc: "CombatEntity.health (playerCombat (the ?run)) \<noteq> 0"
    by (simp add: securityBot_emp_rounds)
  have ne: "?run \<noteq> None" by (simp add: securityBot_emp_rounds)
  have e1: "CombatEntity.health (enemy (the ?run)) = 0
            \<and> Character.health (player (the ?run)) = Character.health ?p"
    using r alive pc handleCombat_exit [of ?p securityBot "[emp_attack, emp_attack]" "the ?run" "[]"]
    by blast
  have w5: "loop_test (rounds_played (combat_start ?ann warden) (take 0 [plain_attack]))"
    using warden_start_alive by simp
  show ?thesis using w5 w1 w2 w3 w4 d1 d2 alive ne e1 by simp
qed

subsection \<open>The round in which the enemy is defeated\<close>

lemma defeat_round_general:
  assumes "\<not> isAlive (enemy (combat_round s i))"
  shows "hasQuestFlag (player (combat_round s i)) ''security_defeated''
         \<and> Player.experience (player (combat_round s i)) = Player.experience (player s) + 50
         \<and> playerCombat (combat_round s i)
             = takeDamage (playerCombat s) (attack (enemy s) + enemyDis i)
         \<and> \<not> loop_test (combat_round s i)"
  using assms
  by (simp add: player_combat_round playerCombat_combat_round enemy_combat_round
      Enemy_calculateDamage_def hasQuestFlag_def setQuestFlag_def Player_gainExperience_def
      loop_test_def word_sless_alt)

text \<open>The same five rounds in the loop of \<^verbatim>\<open>checkpoint3.cpp\<close>, whose defeat branch
  ends with \<^verbatim>\<open>break\<close>: the combat player keeps health 80 and the last line printed is
  the defeat of the enemy.\<close>

lemma checkpoint3_five_rounds:
  "combat_loop3
     \<lparr>player = Player_init ''Ann'', enemy = securityBot,
      playerCombat = CombatPlayer_init ''Ann'', printed = [CombatInitiated ''Security Bot'']\<rparr>
     [plain_attack, plain_attack, plain_attack, plain_attack, plain_attack]
   = Some \<lparr>player = Player_gainExperience (Player_init ''Ann'') 25,
        enemy = Enemy_init ''Security Bot'' ''Robot'' 0 10 3,
        playerCombat = (CombatPlayer_init ''Ann'')\<lparr>CombatEntity.health := 80\<rparr>,
        printed =
          [CombatInitiated ''Security Bot'',
           YouDeal 15, EnemyDeals ''Security Bot'' 10, HealthReport 95 ''Security Bot'' 38,
           YouDeal 15, EnemyDeals ''Security Bot'' 10, HealthReport 90 ''Security Bot'' 26,
           YouDeal 15, EnemyDeals ''Security Bot'' 10, HealthReport 85 ''Security Bot'' 14,
           YouDeal 15, EnemyDeals ''Security Bot'' 10, HealthReport 80 ''Security Bot'' 2,
           YouDeal 15, YouDefeated ''Security Bot'']\<rparr>"
  by (simp add: combat_defs)

text \<open>
  Claim C3, evaluated on the code. Five plain attacks defeat the Security Bot in the
  fifth round: the quest flag is set and 50 experience points are awarded, but the round
  goes on, the defeated enemy deals its 10 points of damage (the combat player ends at
  75, not 80) and the health report is printed, before the loop test ends the loop.
\<close>

theorem defeated_enemy_retaliates:
  "handleCombat (Player_init ''Ann'') securityBot
     [plain_attack, plain_attack, plain_attack, plain_attack, plain_attack]
   = Some \<lparr>player = Player_gainExperience
                      (setQuestFlag (Player_init ''Ann'') ''security_defeated'') 50,
        enemy = Enemy_init ''Security Bot'' ''Robot'' 0 10 3,
        playerCombat = (CombatPlayer_init ''Ann'')\<lparr>CombatEntity.health := 75\<rparr>,
        printed =
          [CombatInitiated ''Security Bot'',
           YouDeal 15, EnemyDeals ''Security Bot'' 10, HealthReport 95 ''Security Bot'' 38,
           YouDeal 15, EnemyDeals ''Security Bot'' 10, HealthReport 90 ''Security Bot'' 26,
           YouDeal 15, EnemyDeals ''Security Bot'' 10, HealthReport 85 ''Security Bot'' 14,
           YouDeal 15, EnemyDeals ''Security Bot'' 10, HealthReport 80 ''Security Bot'' 2,
           YouDeal 15, YouDefeated ''Security Bot'',
           EnemyDeals ''Security Bot'' 10, HealthReport 75 ''Security Bot'' 0]\<rparr>"
  by (simp add: combat_defs)

subsection \<open>The EMP option\<close>

lemma has_emp_nonempty: "has_emp p \<Longrightarrow> 0 < length (inventory p)"
  by (cases "inventory p") (simp_all add: has_emp_def)

text \<open>
  Claim C9. In the player's turn, choice 2 with the EMP in the inventory applies twice
  the value of \<open>calculateDamage\<close> to the enemy, and choice 1 applies that value once.
  For the combat player of \<open>handleCombat\<close> (attack 15) and an offset \<open>r\<close> the
  distribution can return, the value is \<open>15 + r\<close> and its double is \<open>2 * (15 + r)\<close>
  as integers.
\<close>

theorem emp_doubles_damage:
  "(choice i = 2 \<and> has_emp (player s) \<longrightarrow>
      playerDamage (player s) (playerCombat s) i
        = calculateDamage (playerCombat s) (playerDis i) * 2
      \<and> enemy (combat_round s i)
        = takeDamage (enemy s) (calculateDamage (playerCombat s) (playerDis i) * 2))
   \<and> (choice i = 1 \<longrightarrow>
      playerDamage (player s) (playerCombat s) i = calculateDamage (playerCombat s) (playerDis i)
      \<and> enemy (combat_round s i)
        = takeDamage (enemy s) (calculateDamage (playerCombat s) (playerDis i)))
   \<and> (player_roll r \<longrightarrow>
      sint (calculateDamage (CombatPlayer_init n) r) = 15 + sint r
      \<and> sint (calculateDamage (CombatPlayer_init n) r * 2) = 2 * (15 + sint r))"
proof -
  have a: "playerDamage (player s) (playerCombat s) i
             = calculateDamage (playerCombat s) (playerDis i) * 2"
    if "choice i = 2" "has_emp (player s)"
    using that has_emp_nonempty [of "player s"] by (simp add: playerDamage_def emp_branch_def)
  have b: "playerDamage (player s) (playerCombat s) i
             = calculateDamage (playerCombat s) (playerDis i)"
    if "choice i = 1"
    using that by (simp add: playerDamage_def emp_branch_def)
  have c: "sint (calculateDamage (CombatPlayer_init n) r) = 15 + sint r
      \<and> sint (calculateDamage (CombatPlayer_init n) r * 2) = 2 * (15 + sint r)"
    if "player_roll r"
    using sint_player_roll(1) [OF that] sint_player_roll_twice [OF that]
    by (simp add: calculateDamage_def CombatPlayer_init_def)
  show ?thesis using a b c by (simp add: enemy_combat_round)
qed

theorem emp_doubles_damage_witness:
  "choice emp_attack = 2 \<and> has_emp (addItem (Player_init ''Ann'') empDevice)
   \<and> choice plain_attack = 1 \<and> player_roll 0
   \<and> CombatEntity.health
       (enemy (combat_round
          \<lparr>player = addItem (Player_init ''Ann'') empDevice, enemy = securityBot,
           playerCombat = CombatPlayer_init ''Ann'', printed = []\<rparr> emp_attack)) = 23
   \<and> CombatEntity.health
       (enemy (combat_round
          \<lparr>player = addItem (Player_init ''Ann'') empDevice, enemy = securityBot,
           playerCombat = CombatPlayer_init ''Ann'', printed = []\<rparr> plain_attack)) = 38"
  using emp_doubles_damage [of emp_attack
      "\<lparr>player = addItem (Player_init ''Ann'') empDevice, enemy = securityBot,
           playerCombat = CombatPlayer_init ''Ann'', printed = []\<rparr>" 0 "''Ann''"]
    emp_doubles_damage [of plain_attack
      "\<lparr>player = addItem (Player_init ''Ann'') empDevice, enemy = securityBot,
           playerCombat = CombatPlayer_init ''Ann'', printed = []\<rparr>" 0 "''Ann''"]
  by (simp add: has_emp_def player_roll_def combat_defs2 word_sle_eq)


end
